theory Spec2Isabelle
  imports Complex_Main
begin

section \<open>The time-series resampling transformers of photonai\_icu\<close>

text \<open>
  The repository holds two classes, both named \<^verbatim>\<open>ResamplerTransformer\<close>:
  \<^item> \<^verbatim>\<open>photonai_icu/resampler/ResamplerTransformer.py\<close> (variant 1; its definitions
    carry the prefix \<open>resampler\<close>);
  \<^item> \<^verbatim>\<open>photonai_icu/transformer/ResamplerTransformer.py\<close> (variant 2; prefix
    \<open>transformer\<close>).
  Each is a thin orchestration of calls into a dataframe library. The embedding follows
  the two source files statement by statement. The library calls whose result a claim
  depends on (\<^verbatim>\<open>isinstance\<close>, \<^verbatim>\<open>is_datetime64_any_dtype\<close>, \<^verbatim>\<open>get_level_values\<close>,
  \<^verbatim>\<open>reset_index\<close>, \<^verbatim>\<open>drop\<close>, the masked assignment through \<^verbatim>\<open>loc\<close>, \<^verbatim>\<open>fillna\<close>) are written out on a
  small model of a dataframe; the chain \<^verbatim>\<open>groupby(...).resample(...).agg(...)\<close> is a
  parameter of both transforms, so that what is proved of them holds whatever that chain
  computes or raises.
\<close>

subsection \<open>Values, dataframes, Python objects\<close>

text \<open>
  A cell holds a number, a string, a timestamp (time units since the epoch) or the
  missing marker (\<^verbatim>\<open>pd.NA\<close>, \<^verbatim>\<open>NaN\<close>, \<^verbatim>\<open>NaT\<close>). Numbers are exact rationals: rounding
  and the float \<^verbatim>\<open>nan\<close> as a number are outside the model.
\<close>

datatype val = Num rat | Str string | Time int | NA

datatype dtype = Datetime64 | Int64 | Float64 | Object

text \<open>
  A dataframe, column by column: its index and its columns (name, one cell per row). A
  level of the index has a name, a dtype and one value per row; it may be unnamed
  (\<^verbatim>\<open>None\<close>), as the default index is. The index is either a plain index, which is one
  level, or a \<^verbatim>\<open>MultiIndex\<close> of any number of levels, whose names need not differ.
\<close>

record level =
  level_name :: "string option"
  level_dtype :: dtype
  level_values :: "val list"

datatype pd_index = Index level | MultiIndex "level list"

fun levels :: "pd_index \<Rightarrow> level list" where
  "levels (Index l) = [l]"
| "levels (MultiIndex ls) = ls"

record dataframe =
  index :: pd_index
  columns :: "(string \<times> val list) list"

datatype pyobj =
    PyNone
  | PyInt int
  | PyStr string
  | PyList "pyobj list"
  | DataFrame dataframe

datatype py_error = ValueError string | KeyError string | TypeError string

text \<open>\<^verbatim>\<open>method: str | Callable | dict[str, str | Callable]\<close>\<close>

datatype reducer = ByName string | ByCallable "val list \<Rightarrow> val"

datatype agg_method = Single reducer | PerColumn "(string \<times> reducer) list"

text \<open>
  The chain \<^verbatim>\<open>X.groupby(groupby).resample(frequency).agg(method)\<close> of the dataframe
  library: from the grouping key, the frequency string, the method and the table to the
  aggregated table, or to the exception the library raises.
\<close>

type_synonym resample_engine =
  "string \<Rightarrow> string \<Rightarrow> agg_method \<Rightarrow> dataframe \<Rightarrow> py_error + dataframe"

text \<open>
  The process-wide logger (\<^verbatim>\<open>photonai.photonlogger.logger\<close>): the messages logged at
  level error so far, oldest first.
\<close>

type_synonym logger = "string list"

definition logger_error :: "string \<Rightarrow> logger \<Rightarrow> logger" where
  "logger_error msg lg = lg @ [msg]"

subsection \<open>The library calls written out\<close>

text \<open>\<^verbatim>\<open>isinstance(X, pd.DataFrame)\<close>\<close>

fun isinstance_DataFrame :: "pyobj \<Rightarrow> bool" where
  "isinstance_DataFrame (DataFrame df) = True"
| "isinstance_DataFrame _ = False"

text \<open>
  \<^verbatim>\<open>is_datetime64_any_dtype(X.index)\<close>: the dtype of the index object itself. A plain
  index has the dtype of its level; a \<^verbatim>\<open>MultiIndex\<close> has dtype object, whatever its
  levels hold and however many they are.
\<close>

fun is_datetime64_any_dtype_index :: "pd_index \<Rightarrow> bool" where
  "is_datetime64_any_dtype_index (Index l) = (level_dtype l = Datetime64)"
| "is_datetime64_any_dtype_index (MultiIndex ls) = False"

text \<open>\<^verbatim>\<open>X.index.names\<close>\<close>

definition index_names :: "pd_index \<Rightarrow> string option list" where
  "index_names ix = map level_name (levels ix)"

text \<open>A name as the library prints it in a message.\<close>

definition show_name :: "string option \<Rightarrow> string" where
  "show_name name = (case name of None \<Rightarrow> ''None'' | Some n \<Rightarrow> n)"

text \<open>
  \<^verbatim>\<open>X.index.get_level_values(name)\<close>: the level of that name. On a plain index the name
  must be the name of the index, or the library raises a key error. On a \<^verbatim>\<open>MultiIndex\<close>
  the library raises a value error when the name occurs more than once among the level
  names, and a key error when it does not occur.
\<close>

definition get_level_values :: "string option \<Rightarrow> pd_index \<Rightarrow> py_error + level" where
  "get_level_values name ix =
     (case ix of
        Index l \<Rightarrow>
          if level_name l = name then Inr l
          else Inl (KeyError (''Requested level ('' @ show_name name
                               @ '') does not match index name ('' @ show_name (level_name l)
                               @ '')''))
      | MultiIndex ls \<Rightarrow>
          if 1 < count_list (map level_name ls) name then
            Inl (ValueError (''The name '' @ show_name name
                               @ '' occurs multiple times, use a level number''))
          else
            (case filter (\<lambda>l. level_name l = name) ls of
               [] \<Rightarrow> Inl (KeyError (''Level '' @ show_name name @ '' not found''))
             | l # _ \<Rightarrow> Inr l))"

text \<open>
  \<^verbatim>\<open>any(is_datetime64_any_dtype(X.index.get_level_values(ix_name))
       for ix_name in X.index.names)\<close>:
  the names are taken in order and each level is looked up by its name; the first level
  of a datetime dtype ends the search, and an exception of the lookup ends the call.
\<close>

fun any_is_datetime64 :: "pd_index \<Rightarrow> string option list \<Rightarrow> py_error + bool" where
  "any_is_datetime64 ix [] = Inr False"
| "any_is_datetime64 ix (ix_name # names) =
     (case get_level_values ix_name ix of
        Inl e \<Rightarrow> Inl e
      | Inr l \<Rightarrow>
          if level_dtype l = Datetime64 then Inr True else any_is_datetime64 ix names)"

definition any_level_is_datetime64 :: "pd_index \<Rightarrow> py_error + bool" where
  "any_level_is_datetime64 ix = any_is_datetime64 ix (index_names ix)"

definition nrows :: "dataframe \<Rightarrow> nat" where
  "nrows df = (case levels (index df) of [] \<Rightarrow> 0 | l # _ \<Rightarrow> length (level_values l))"

text \<open>
  \<^verbatim>\<open>X.reset_index(name)\<close>: the index level of that name, looked up as above, becomes
  the first column. The library raises a value error when a column of the name is there
  already. One level left is a plain index; when no level is left, the default index (the
  row numbers, unnamed) takes its place.
\<close>

definition reset_index :: "string \<Rightarrow> dataframe \<Rightarrow> py_error + dataframe" where
  "reset_index name df =
     (case get_level_values (Some name) (index df) of
        Inl e \<Rightarrow> Inl e
      | Inr l \<Rightarrow>
          if name \<in> set (map fst (columns df)) then
            Inl (ValueError (''cannot insert '' @ name @ '', already exists''))
          else
            Inr \<lparr> index =
                    (case filter (\<lambda>l. level_name l \<noteq> Some name) (levels (index df)) of
                       [] \<Rightarrow>
                         Index \<lparr> level_name = None, level_dtype = Int64,
                                 level_values = map (\<lambda>i. Num (of_nat i)) [0..<nrows df] \<rparr>
                     | [r] \<Rightarrow> Index r
                     | rest \<Rightarrow> MultiIndex rest),
                  columns = (name, level_values l) # columns df \<rparr>)"

text \<open>\<^verbatim>\<open>.drop(columns=name, errors="ignore")\<close>\<close>

definition drop_columns :: "string \<Rightarrow> dataframe \<Rightarrow> dataframe" where
  "drop_columns name df = df \<lparr> columns := filter (\<lambda>c. fst c \<noteq> name) (columns df) \<rparr>"

text \<open>\<^verbatim>\<open>resampeld_x[column] == 0\<close>, cell by cell: numeric equality with zero.\<close>

fun eq_zero :: "val \<Rightarrow> bool" where
  "eq_zero (Num x) = (x = 0)"
| "eq_zero _ = False"

text \<open>\<^verbatim>\<open>resampeld_x.loc[resampeld_x[column] == 0, column] = pd.NA\<close>\<close>

definition mask_zero_cell :: "val \<Rightarrow> val" where
  "mask_zero_cell v = (if eq_zero v then NA else v)"

definition mask_zero_column :: "string \<Rightarrow> dataframe \<Rightarrow> dataframe" where
  "mask_zero_column column df =
     df \<lparr> columns :=
            map (\<lambda>c. if fst c = column then (fst c, map mask_zero_cell (snd c)) else c)
              (columns df) \<rparr>"

text \<open>\<^verbatim>\<open>for column in resampeld_x.columns: ...\<close>\<close>

definition mask_zeros :: "dataframe \<Rightarrow> dataframe" where
  "mask_zeros df = fold mask_zero_column (map fst (columns df)) df"

text \<open>\<^verbatim>\<open>.fillna(value)\<close>: every missing cell of every column becomes the value.\<close>

definition fill_cell :: "rat \<Rightarrow> val \<Rightarrow> val" where
  "fill_cell v c = (case c of NA \<Rightarrow> Num v | _ \<Rightarrow> c)"

definition fillna :: "rat \<Rightarrow> dataframe \<Rightarrow> dataframe" where
  "fillna v df = df \<lparr> columns := map (\<lambda>c. (fst c, map (fill_cell v) (snd c))) (columns df) \<rparr>"

subsection \<open>Variant 1: \<^verbatim>\<open>photonai_icu/resampler/ResamplerTransformer.py\<close>\<close>

record resampler =
  resampler_frequency :: string
  resampler_method :: string
  resampler_groupby :: string
  resampler_default_value :: "rat option"

text \<open>
  \<^verbatim>\<open>__init__(self, frequency=None, method=None, groupby=None, default_value=None)\<close>:
  an argument left out or given as \<^verbatim>\<open>None\<close> is \<open>None\<close> here.
\<close>

definition resampler_init ::
  "string option \<Rightarrow> string option \<Rightarrow> string option \<Rightarrow> rat option \<Rightarrow> resampler" where
  "resampler_init frequency method groupby default_value =
     \<lparr> resampler_frequency = (case frequency of Some f \<Rightarrow> f | None \<Rightarrow> ''1H''),
       resampler_method = (case method of Some m \<Rightarrow> m | None \<Rightarrow> ''mean''),
       resampler_groupby = (case groupby of Some g \<Rightarrow> g | None \<Rightarrow> ''stay_id''),
       resampler_default_value = (case default_value of Some v \<Rightarrow> Some v | None \<Rightarrow> Some 0) \<rparr>"

text \<open>\<^verbatim>\<open>fit(self, X=None, y=None)\<close>: the returned object and the logger after the call.\<close>

definition resampler_fit ::
  "resampler \<Rightarrow> pyobj \<Rightarrow> pyobj \<Rightarrow> logger \<Rightarrow> resampler \<times> logger" where
  "resampler_fit self X y lg = (self, lg)"

text \<open>Lines 58 to 67 of \<^verbatim>\<open>transform\<close>: the resampling and the default fill.\<close>

definition resampler_resample ::
  "resample_engine \<Rightarrow> resampler \<Rightarrow> dataframe \<Rightarrow> py_error + pyobj" where
  "resampler_resample engine self X =
     (case engine (resampler_groupby self) (resampler_frequency self)
             (Single (ByName (resampler_method self))) X of
        Inl e \<Rightarrow> Inl e
      | Inr resampeld_x \<Rightarrow>
          (case resampler_default_value self of
             None \<Rightarrow> Inr (DataFrame resampeld_x)
           | Some v \<Rightarrow> Inr (DataFrame (fillna v resampeld_x))))"

text \<open>
  \<^verbatim>\<open>transform(self, X)\<close>: what the call returns (\<open>Inr\<close>) or raises (\<open>Inl\<close>), and the
  logger after it.
\<close>

definition resampler_transform ::
  "resample_engine \<Rightarrow> resampler \<Rightarrow> pyobj \<Rightarrow> logger \<Rightarrow> (py_error + pyobj) \<times> logger" where
  "resampler_transform engine self X lg =
     (case X of
        DataFrame df \<Rightarrow>
          if \<not> is_datetime64_any_dtype_index (index df) then
            (Inr X, logger_error ''ResamplerTransformer: X does not have a datetime index'' lg)
          else (resampler_resample engine self df, lg)
      | _ \<Rightarrow> (Inr X, logger_error ''ResamplerTransformer: X is not a pandas DataFrame'' lg))"

subsection \<open>Variant 2: \<^verbatim>\<open>photonai_icu/transformer/ResamplerTransformer.py\<close>\<close>

record transformer =
  transformer_frequency :: string
  transformer_groupby :: string
  transformer_method :: agg_method
  transformer_default_value :: "rat option"
  transformer_error :: string

text \<open>
  \<^verbatim>\<open>__init__(self, frequency="1H", groupby="stay_id", method="mean",
       default_value=None, error="raise")\<close>:
  an argument left out is \<open>None\<close> here and takes the default of the signature; the
  arguments given are stored as they are.
\<close>

definition transformer_init ::
  "string option \<Rightarrow> string option \<Rightarrow> agg_method option \<Rightarrow> rat option \<Rightarrow> string option
     \<Rightarrow> transformer" where
  "transformer_init frequency groupby method default_value error =
     \<lparr> transformer_frequency = (case frequency of Some f \<Rightarrow> f | None \<Rightarrow> ''1H''),
       transformer_groupby = (case groupby of Some g \<Rightarrow> g | None \<Rightarrow> ''stay_id''),
       transformer_method = (case method of Some m \<Rightarrow> m | None \<Rightarrow> Single (ByName ''mean'')),
       transformer_default_value = default_value,
       transformer_error = (case error of Some e \<Rightarrow> e | None \<Rightarrow> ''raise'') \<rparr>"

text \<open>\<^verbatim>\<open>fit(self, X, y=None)\<close>\<close>

definition transformer_fit ::
  "transformer \<Rightarrow> pyobj \<Rightarrow> pyobj \<Rightarrow> logger \<Rightarrow> transformer \<times> logger" where
  "transformer_fit self X y lg = (self, lg)"

text \<open>Lines 78 to 84 of \<^verbatim>\<open>transform\<close>: the aggregated table, the grouping column dropped.\<close>

definition transformer_aggregate ::
  "resample_engine \<Rightarrow> transformer \<Rightarrow> dataframe \<Rightarrow> py_error + dataframe" where
  "transformer_aggregate engine self X =
     (case reset_index (transformer_groupby self) X of
        Inl e \<Rightarrow> Inl e
      | Inr X' \<Rightarrow>
          (case engine (transformer_groupby self) (transformer_frequency self)
                  (transformer_method self) X' of
             Inl e \<Rightarrow> Inl e
           | Inr agg \<Rightarrow> Inr (drop_columns (transformer_groupby self) agg)))"

text \<open>Lines 78 to 92: aggregation, zero masking and the default fill.\<close>

definition transformer_resample ::
  "resample_engine \<Rightarrow> transformer \<Rightarrow> dataframe \<Rightarrow> py_error + pyobj" where
  "transformer_resample engine self X =
     (case transformer_aggregate engine self X of
        Inl e \<Rightarrow> Inl e
      | Inr dropped \<Rightarrow>
          (let resampeld_x = mask_zeros dropped in
           case transformer_default_value self of
             None \<Rightarrow> Inr (DataFrame resampeld_x)
           | Some v \<Rightarrow> Inr (DataFrame (fillna v resampeld_x))))"

definition transformer_transform ::
  "resample_engine \<Rightarrow> transformer \<Rightarrow> pyobj \<Rightarrow> logger \<Rightarrow> (py_error + pyobj) \<times> logger" where
  "transformer_transform engine self X lg =
     (case X of
        DataFrame df \<Rightarrow>
          (case any_level_is_datetime64 (index df) of
             Inl e \<Rightarrow> (Inl e, lg)
           | Inr found \<Rightarrow>
               if \<not> found then
                 (let lg' = logger_error
                              ''ResamplerTransformer: X does not have a datetime index'' lg in
                  if transformer_error self = ''raise'' then
                    (Inl (ValueError ''X does not have a datetime index''), lg')
                  else (Inr X, lg'))
               else (transformer_resample engine self df, lg))
      | _ \<Rightarrow>
          (let lg' = logger_error ''ResamplerTransformer: X is not a pandas DataFrame'' lg in
           if transformer_error self = ''raise'' then
             (Inl (ValueError ''X is not a pandas DataFrame''), lg')
           else (Inr X, lg')))"

subsection \<open>The group-by / resample / aggregate chain\<close>

text \<open>
  Modelled from the spec: the chain \<^verbatim>\<open>groupby(...).resample(...).agg(...)\<close> belongs to the
  dataframe library and is not part of the sources. The definitions below follow the
  spec's section 4.1, steps b to d: the rows are partitioned by the value of the grouping
  key; within each partition they are bucketed into left-closed intervals of the width of
  the frequency, aligned to one origin for all partitions (the epoch here), one row per
  bucket from the partition's earliest to its latest timestamp, empty buckets included;
  within each bucket each column is reduced by the method. The result is indexed by
  (group, bucket start) and keeps the columns of the input. A row whose key is the
  missing marker belongs to no group, and a row without a timestamp to no bucket.
  What the library makes of a frequency string and of the name of a reduction is left
  open: \<open>to_offset\<close> gives the bucket width in time units, \<open>named_reduction\<close> the
  reduction of that name (from the cells of a bucket to the aggregate).
\<close>

record library =
  to_offset :: "string \<Rightarrow> nat option"
  named_reduction :: "string \<Rightarrow> (val list \<Rightarrow> val) option"

definition bucket_start :: "nat \<Rightarrow> int \<Rightarrow> int" where
  "bucket_start w t = (t div int w) * int w"

fun time_of :: "val \<Rightarrow> int option" where
  "time_of (Time t) = Some t"
| "time_of _ = None"

text \<open>Step b: the groups, each once, and the timestamps of one group.\<close>

definition group_keys :: "val list \<Rightarrow> val list" where
  "group_keys keys = remdups (filter (\<lambda>k. k \<noteq> NA) keys)"

definition group_times :: "val \<Rightarrow> val list \<Rightarrow> val list \<Rightarrow> int list" where
  "group_times k keys stamps =
     List.map_filter (\<lambda>(k', t). if k' = k then time_of t else None) (zip keys stamps)"

text \<open>Step c: the bucket starts of one group, from its earliest to its latest timestamp.\<close>

definition bucket_grid :: "nat \<Rightarrow> int list \<Rightarrow> int list" where
  "bucket_grid w ts =
     (case ts of
        [] \<Rightarrow> []
      | t # ts' \<Rightarrow>
          let lo = bucket_start w (fold min ts' t);
              hi = bucket_start w (fold max ts' t)
          in map (\<lambda>j. lo + int j * int w) [0..<Suc (nat ((hi - lo) div int w))])"

text \<open>Step d: the cells of one column that fall into bucket \<open>b\<close> of group \<open>k\<close>.\<close>

definition bucket_cells :: "nat \<Rightarrow> val \<Rightarrow> int \<Rightarrow> val list \<Rightarrow> val list \<Rightarrow> val list \<Rightarrow> val list" where
  "bucket_cells w k b keys stamps cells =
     map (\<lambda>(k', t, c). c)
       (filter (\<lambda>(k', t, c). k' = k \<and> map_option (bucket_start w) (time_of t) = Some b)
          (zip keys (zip stamps cells)))"

definition resolve_reducer :: "library \<Rightarrow> reducer \<Rightarrow> py_error + (val list \<Rightarrow> val)" where
  "resolve_reducer lib r =
     (case r of
        ByCallable f \<Rightarrow> Inr f
      | ByName n \<Rightarrow>
          (case named_reduction lib n of
             None \<Rightarrow> Inl (ValueError (''unknown aggregation '' @ n))
           | Some f \<Rightarrow> Inr f))"

text \<open>
  The columns of the result with their reductions: every column under a single method,
  the columns of the mapping (which must exist) under a per-column method.
\<close>

fun resolve_all ::
  "library \<Rightarrow> (string \<times> reducer) list \<Rightarrow> py_error + (string \<times> (val list \<Rightarrow> val)) list" where
  "resolve_all lib [] = Inr []"
| "resolve_all lib ((c, r) # rest) =
     (case resolve_reducer lib r of
        Inl e \<Rightarrow> Inl e
      | Inr f \<Rightarrow>
          (case resolve_all lib rest of
             Inl e \<Rightarrow> Inl e
           | Inr fs \<Rightarrow> Inr ((c, f) # fs)))"

definition resolve_method ::
  "library \<Rightarrow> agg_method \<Rightarrow> string list \<Rightarrow> py_error + (string \<times> (val list \<Rightarrow> val)) list" where
  "resolve_method lib method cols =
     (case method of
        Single r \<Rightarrow> resolve_all lib (map (\<lambda>c. (c, r)) cols)
      | PerColumn m \<Rightarrow>
          (case filter (\<lambda>c. c \<notin> set cols) (map fst m) of
             [] \<Rightarrow> resolve_all lib m
           | c # _ \<Rightarrow> Inl (KeyError c)))"

definition resample_groups ::
  "nat \<Rightarrow> string \<Rightarrow> level \<Rightarrow> val list \<Rightarrow> (string \<times> (val list \<Rightarrow> val)) list \<Rightarrow> dataframe
     \<Rightarrow> dataframe" where
  "resample_groups w groupby l keys reds X =
     (let stamps = level_values l;
          groups = group_keys keys;
          grid = (\<lambda>k. bucket_grid w (group_times k keys stamps))
      in \<lparr> index =
             MultiIndex
               [\<lparr> level_name = Some groupby, level_dtype = Object,
                  level_values = concat (map (\<lambda>k. map (\<lambda>b. k) (grid k)) groups) \<rparr>,
                \<lparr> level_name = level_name l, level_dtype = Datetime64,
                  level_values = concat (map (\<lambda>k. map Time (grid k)) groups) \<rparr>],
           columns =
             map (\<lambda>(c, f).
                    (c, concat (map (\<lambda>k. map (\<lambda>b. f (bucket_cells w k b keys stamps
                                                        (the (map_of (columns X) c))))
                                            (grid k)) groups)))
               reds \<rparr>)"

definition spec_engine :: "library \<Rightarrow> resample_engine" where
  "spec_engine lib groupby frequency method X =
     (case map_of (columns X) groupby of
        None \<Rightarrow> Inl (KeyError groupby)
      | Some keys \<Rightarrow>
          (case index X of
             Index l \<Rightarrow>
               if level_dtype l \<noteq> Datetime64 then
                 Inl (TypeError ''Only valid with DatetimeIndex'')
               else
                 (case to_offset lib frequency of
                    None \<Rightarrow> Inl (ValueError (''Invalid frequency: '' @ frequency))
                  | Some w \<Rightarrow>
                      if w = 0 then Inl (ValueError (''Invalid frequency: '' @ frequency))
                      else
                        (case resolve_method lib method (map fst (columns X)) of
                           Inl e \<Rightarrow> Inl e
                         | Inr reds \<Rightarrow> Inr (resample_groups w groupby l keys reds X)))
           | MultiIndex ls \<Rightarrow> Inl (TypeError ''Only valid with DatetimeIndex'')))"

text \<open>
  One library for concrete runs: time in seconds, the frequency \<^verbatim>\<open>"1H"\<close>, and the
  reductions mean (missing on a bucket without numbers) and sum (zero there).
\<close>

fun nums_of :: "val list \<Rightarrow> rat list" where
  "nums_of [] = []"
| "nums_of (Num x # vs) = x # nums_of vs"
| "nums_of (_ # vs) = nums_of vs"

definition mean_reduction :: "val list \<Rightarrow> val" where
  "mean_reduction vs =
     (case nums_of vs of [] \<Rightarrow> NA | x # xs \<Rightarrow> Num (sum_list (x # xs) / of_nat (length (x # xs))))"

definition sum_reduction :: "val list \<Rightarrow> val" where
  "sum_reduction vs = Num (sum_list (nums_of vs))"

definition hourly_library :: library where
  "hourly_library =
     \<lparr> to_offset = (\<lambda>f. if f = ''1H'' then Some 3600 else None),
       named_reduction =
         (\<lambda>n. if n = ''mean'' then Some mean_reduction
               else if n = ''sum'' then Some sum_reduction else None) \<rparr>"

subsection \<open>Reading a table\<close>

text \<open>The cell in row \<open>i\<close> of the \<open>j\<close>-th column.\<close>

definition cell :: "dataframe \<Rightarrow> nat \<Rightarrow> nat \<Rightarrow> val" where
  "cell df j i = snd (columns df ! j) ! i"

text \<open>
  The values of the first index level of a name, \<open>None\<close> when no level has the name.
\<close>

definition level_values_named :: "string \<Rightarrow> dataframe \<Rightarrow> val list option" where
  "level_values_named name df =
     (case filter (\<lambda>l. level_name l = Some name) (levels (index df)) of
        [] \<Rightarrow> None
      | l # _ \<Rightarrow> Some (level_values l))"

text \<open>
  The names of an index identify its levels: always on a plain index, and on a
  \<^verbatim>\<open>MultiIndex\<close> when no name occurs twice.
\<close>

fun names_identify_levels :: "pd_index \<Rightarrow> bool" where
  "names_identify_levels (Index l) = True"
| "names_identify_levels (MultiIndex ls) = distinct (map level_name ls)"

subsection \<open>Valid inputs of the resampling\<close>

text \<open>
  Section 3 of the spec: every row has a timestamp and a grouping key. For variant 1 the
  table has a plain datetime index and the key is a column; for variant 2 the key is a
  level of the index, beside one datetime level, and the names of the index identify its
  levels. The frequency has a positive width and the method names reductions the library
  knows.
\<close>

definition resampler_valid_input :: "library \<Rightarrow> resampler \<Rightarrow> dataframe \<Rightarrow> bool" where
  "resampler_valid_input lib self X =
     (case index X of
        Index l \<Rightarrow>
          level_dtype l = Datetime64
          \<and> list_all (\<lambda>t. time_of t \<noteq> None) (level_values l)
          \<and> (case map_of (columns X) (resampler_groupby self) of
                None \<Rightarrow> False
              | Some keys \<Rightarrow> length keys = length (level_values l) \<and> NA \<notin> set keys)
          \<and> (case to_offset lib (resampler_frequency self) of
                None \<Rightarrow> False
              | Some w \<Rightarrow> 0 < w)
          \<and> named_reduction lib (resampler_method self) \<noteq> None
      | MultiIndex ls \<Rightarrow> False)"

definition transformer_valid_input :: "library \<Rightarrow> transformer \<Rightarrow> dataframe \<Rightarrow> bool" where
  "transformer_valid_input lib self X =
     (case level_values_named (transformer_groupby self) X of
        None \<Rightarrow> False
      | Some keys \<Rightarrow>
          names_identify_levels (index X)
          \<and> transformer_groupby self \<notin> set (map fst (columns X))
          \<and> NA \<notin> set keys
          \<and> (case filter (\<lambda>l. level_name l \<noteq> Some (transformer_groupby self))
                       (levels (index X)) of
                [l] \<Rightarrow>
                  level_dtype l = Datetime64
                  \<and> list_all (\<lambda>t. time_of t \<noteq> None) (level_values l)
                  \<and> length keys = length (level_values l)
              | _ \<Rightarrow> False)
          \<and> (case to_offset lib (transformer_frequency self) of
                None \<Rightarrow> False
              | Some w \<Rightarrow> 0 < w)
          \<and> (case resolve_method lib (transformer_method self)
                       (transformer_groupby self # map fst (columns X)) of
                Inl e \<Rightarrow> False
              | Inr reds \<Rightarrow> True))"

subsection \<open>Concrete tables\<close>

text \<open>
  The scenario of the spec's section 8, in seconds, with a three-hour gap and a zero
  measurement added to group A: A has rows at 00:00 (10), 01:30 (20) and 04:00 (0), B has
  one row at 00:45 (5). \<open>scenario_flat\<close> is the shape variant 1 takes (datetime index,
  key column), \<open>scenario_keyed\<close> the shape variant 2 takes (key and time in the index).
\<close>

definition scenario_flat :: dataframe where
  "scenario_flat =
     \<lparr> index = Index \<lparr> level_name = Some ''charttime'', level_dtype = Datetime64,
                       level_values = [Time 0, Time 5400, Time 2700, Time 14400] \<rparr>,
       columns = [(''stay_id'', [Str ''A'', Str ''A'', Str ''B'', Str ''A'']),
                  (''hr'', [Num 10, Num 20, Num 5, Num 0])] \<rparr>"

definition scenario_keyed :: dataframe where
  "scenario_keyed =
     \<lparr> index = MultiIndex
                 [\<lparr> level_name = Some ''stay_id'', level_dtype = Object,
                    level_values = [Str ''A'', Str ''A'', Str ''B'', Str ''A''] \<rparr>,
                  \<lparr> level_name = Some ''charttime'', level_dtype = Datetime64,
                    level_values = [Time 0, Time 5400, Time 2700, Time 14400] \<rparr>],
       columns = [(''hr'', [Num 10, Num 20, Num 5, Num 0])] \<rparr>"

text \<open>A table indexed by the grouping key alone.\<close>

definition keyed_only :: dataframe where
  "keyed_only =
     \<lparr> index = Index \<lparr> level_name = Some ''stay_id'', level_dtype = Int64,
                       level_values = [Num 1, Num 2] \<rparr>,
       columns = [(''hr'', [Num 80, Num 90])] \<rparr>"




text \<open>
  The hourly means of the scenario: group A has the buckets 00:00 to 04:00, two of them
  empty and the last with mean zero; the key column, which holds no numbers, has no mean.
\<close>

definition scenario_mean :: dataframe where
  "scenario_mean =
     \<lparr> index = MultiIndex
                 [\<lparr> level_name = Some ''stay_id'', level_dtype = Object,
                    level_values =
                      [Str ''B'', Str ''A'', Str ''A'', Str ''A'', Str ''A'', Str ''A''] \<rparr>,
                  \<lparr> level_name = Some ''charttime'', level_dtype = Datetime64,
                    level_values =
                      [Time 0, Time 0, Time 3600, Time 7200, Time 10800, Time 14400] \<rparr>],
       columns = [(''stay_id'', [NA, NA, NA, NA, NA, NA]),
                  (''hr'', [Num 5, Num 10, Num 20, NA, NA, Num 0])] \<rparr>"

section \<open>Looking levels up by name\<close>

lemma count_list_distinct: "distinct xs \<Longrightarrow> count_list xs x \<le> 1"
  by (induction xs) (auto simp: count_list_0_iff)

lemma distinct_count_list: "\<forall>x \<in> set xs. count_list xs x \<le> 1 \<Longrightarrow> distinct xs"
proof (induction xs)
  case Nil
  then show ?case by simp
next
  case (Cons a xs)
  have "count_list (a # xs) a \<le> 1"
    by (rule bspec [OF Cons.prems]) simp
  then have "count_list xs a = 0"
    by simp
  then have fresh: "a \<notin> set xs"
    by (simp add: count_list_0_iff)
  have "count_list xs x \<le> 1" if "x \<in> set xs" for x
  proof -
    have "count_list (a # xs) x \<le> 1"
      by (rule bspec [OF Cons.prems]) (simp add: that)
    moreover have "count_list xs x \<le> count_list (a # xs) x"
      by simp
    ultimately show ?thesis
      by (rule order_trans [rotated])
  qed
  then have "distinct xs"
    using Cons.IH by blast
  with fresh show ?case
    by simp
qed

lemma filter_same_name:
  "distinct (map f xs) \<Longrightarrow> x \<in> set xs \<Longrightarrow> filter (\<lambda>y. f y = f x) xs = [x]"
proof (induction xs)
  case Nil
  then show ?case by simp
next
  case (Cons a xs)
  show ?case
  proof (cases "a = x")
    case True
    with Cons.prems(1) have "filter (\<lambda>y. f y = f x) xs = []"
      by (auto simp: filter_empty_conv image_iff)
    with True show ?thesis by simp
  next
    case False
    with Cons.prems have "x \<in> set xs" "f a \<noteq> f x"
      by auto
    with Cons show ?thesis by simp
  qed
qed

lemma get_level_values_plain: "get_level_values (level_name l) (Index l) = Inr l"
  by (simp add: get_level_values_def)

lemma get_level_values_distinct:
  assumes "distinct (map level_name ls)" and "l \<in> set ls"
  shows "get_level_values (level_name l) (MultiIndex ls) = Inr l"
  using count_list_distinct [OF assms(1), of "level_name l"]
    filter_same_name [where f = level_name, OF assms]
  by (simp add: get_level_values_def)

lemma get_level_values_repeated:
  "1 < count_list (map level_name ls) name \<Longrightarrow>
   get_level_values name (MultiIndex ls)
     = Inl (ValueError (''The name '' @ show_name name
                          @ '' occurs multiple times, use a level number''))"
  by (simp add: get_level_values_def)

lemma any_is_datetime64_distinct:
  assumes "distinct (map level_name ls)" and "set ks \<subseteq> set ls"
  shows "any_is_datetime64 (MultiIndex ls) (map level_name ks)
           = Inr (\<exists>l \<in> set ks. level_dtype l = Datetime64)"
  using assms(2)
proof (induction ks)
  case Nil
  then show ?case by simp
next
  case (Cons k ks)
  then have "get_level_values (level_name k) (MultiIndex ls) = Inr k"
    using get_level_values_distinct [OF assms(1), of k] by simp
  with Cons show ?case by simp
qed

lemma any_is_datetime64_False_counts:
  "any_is_datetime64 (MultiIndex ls) names = Inr False \<Longrightarrow>
   \<forall>n \<in> set names. count_list (map level_name ls) n \<le> 1"
proof (induction names)
  case Nil
  then show ?case by simp
next
  case (Cons n names)
  have "count_list (map level_name ls) n \<le> 1"
  proof (rule ccontr)
    assume "\<not> count_list (map level_name ls) n \<le> 1"
    then have "1 < count_list (map level_name ls) n" by simp
    from get_level_values_repeated [OF this] Cons.prems show False by simp
  qed
  moreover from Cons.prems have "any_is_datetime64 (MultiIndex ls) names = Inr False"
    by (simp split: sum.splits if_splits)
  ultimately show ?case
    using Cons.IH by simp
qed

text \<open>
  When the names of the index identify its levels, the check of variant 2 raises nothing
  and finds a datetime level exactly when there is one.
\<close>

lemma any_level_is_datetime64_identified:
  assumes "names_identify_levels ix"
  shows "any_level_is_datetime64 ix = Inr (\<exists>l \<in> set (levels ix). level_dtype l = Datetime64)"
proof (cases ix)
  case (Index l)
  then show ?thesis
    by (simp add: any_level_is_datetime64_def index_names_def get_level_values_plain)
next
  case (MultiIndex ls)
  with assms have "distinct (map level_name ls)" by simp
  from any_is_datetime64_distinct [OF this, of ls] MultiIndex show ?thesis
    by (simp add: any_level_is_datetime64_def index_names_def)
qed

text \<open>The check finds no datetime level, and raises nothing, on exactly these indexes.\<close>

lemma any_level_is_datetime64_False_iff:
  "any_level_is_datetime64 ix = Inr False
     \<longleftrightarrow> names_identify_levels ix \<and> \<not> (\<exists>l \<in> set (levels ix). level_dtype l = Datetime64)"
proof
  assume no: "any_level_is_datetime64 ix = Inr False"
  have "names_identify_levels ix"
  proof (cases ix)
    case (Index l)
    then show ?thesis by simp
  next
    case (MultiIndex ls)
    with no have "any_is_datetime64 (MultiIndex ls) (map level_name ls) = Inr False"
      by (simp add: any_level_is_datetime64_def index_names_def)
    from any_is_datetime64_False_counts [OF this] have "distinct (map level_name ls)"
      by (rule distinct_count_list)
    with MultiIndex show ?thesis by simp
  qed
  with no any_level_is_datetime64_identified [of ix]
  show "names_identify_levels ix \<and> \<not> (\<exists>l \<in> set (levels ix). level_dtype l = Datetime64)"
    by simp
next
  assume "names_identify_levels ix \<and> \<not> (\<exists>l \<in> set (levels ix). level_dtype l = Datetime64)"
  with any_level_is_datetime64_identified [of ix]
  show "any_level_is_datetime64 ix = Inr False"
    by simp
qed

section \<open>Properties of the library calls\<close>

lemma mask_zero_cell_idem: "mask_zero_cell (mask_zero_cell v) = mask_zero_cell v"
  by (cases v) (simp_all add: mask_zero_cell_def)

lemma fold_mask_zero_column:
  "fold mask_zero_column ns df =
     df \<lparr> columns :=
            map (\<lambda>c. if fst c \<in> set ns then (fst c, map mask_zero_cell (snd c)) else c)
              (columns df) \<rparr>"
proof (induction ns arbitrary: df)
  case Nil
  then show ?case by simp
next
  case (Cons n ns)
  have "fold mask_zero_column (n # ns) df = fold mask_zero_column ns (mask_zero_column n df)"
    by simp
  also have "\<dots> = (mask_zero_column n df)
       \<lparr> columns :=
            map (\<lambda>c. if fst c \<in> set ns then (fst c, map mask_zero_cell (snd c)) else c)
              (columns (mask_zero_column n df)) \<rparr>"
    by (rule Cons.IH)
  also have "\<dots> = df \<lparr> columns :=
            map (\<lambda>c. if fst c \<in> set (n # ns) then (fst c, map mask_zero_cell (snd c)) else c)
              (columns df) \<rparr>"
    by (simp add: mask_zero_column_def mask_zero_cell_idem comp_def)
  finally show ?case .
qed

lemma columns_mask_zeros:
  "columns (mask_zeros df) = map (\<lambda>c. (fst c, map mask_zero_cell (snd c))) (columns df)"
  by (simp add: mask_zeros_def fold_mask_zero_column)

lemma index_mask_zeros: "index (mask_zeros df) = index df"
  by (simp add: mask_zeros_def fold_mask_zero_column)

lemma cell_mask_zeros:
  "j < length (columns df) \<Longrightarrow> i < length (snd (columns df ! j)) \<Longrightarrow>
   cell (mask_zeros df) j i = mask_zero_cell (cell df j i)"
  by (simp add: cell_def columns_mask_zeros)

lemma cell_fillna:
  "j < length (columns df) \<Longrightarrow> i < length (snd (columns df ! j)) \<Longrightarrow>
   cell (fillna v df) j i = fill_cell v (cell df j i)"
  by (simp add: cell_def fillna_def)

lemma names_mask_zeros: "map fst (columns (mask_zeros df)) = map fst (columns df)"
  by (simp add: columns_mask_zeros comp_def)

lemma names_fillna: "map fst (columns (fillna v df)) = map fst (columns df)"
  by (simp add: fillna_def comp_def)

lemma fill_cell_not_NA: "fill_cell v c \<noteq> NA"
  by (cases c) (simp_all add: fill_cell_def)

lemma no_NA_fillna: "(n, cs) \<in> set (columns (fillna v df)) \<Longrightarrow> NA \<notin> set cs"
  using fill_cell_not_NA [of v] by (auto simp: fillna_def) metis

section \<open>Properties of the modelled group-by / resample / aggregate chain\<close>

lemma bucket_grid_empty_iff: "bucket_grid w ts = [] \<longleftrightarrow> ts = []"
  by (cases ts) (simp_all add: bucket_grid_def Let_def)

lemma map_filter_member:
  "x \<in> set xs \<Longrightarrow> f x = Some y \<Longrightarrow> y \<in> set (List.map_filter f xs)"
  by (induction xs) (auto split: option.splits)

lemma group_times_nonempty:
  assumes "k \<in> set keys"
    and "length keys = length stamps"
    and "list_all (\<lambda>t. time_of t \<noteq> None) stamps"
  shows "group_times k keys stamps \<noteq> []"
proof -
  from assms(1) obtain i where i: "i < length keys" "keys ! i = k"
    by (auto simp: in_set_conv_nth)
  with assms(2) have mem: "(k, stamps ! i) \<in> set (zip keys stamps)"
    by (auto simp: set_zip)
  from i assms(2,3) have "time_of (stamps ! i) \<noteq> None"
    by (simp add: list_all_length)
  then obtain t where "time_of (stamps ! i) = Some t" by auto
  with mem have "t \<in> set (group_times k keys stamps)"
    using map_filter_member [OF mem, of "\<lambda>(k', t). if k' = k then time_of t else None" t]
    by (simp add: group_times_def)
  then show ?thesis by auto
qed

lemma set_constant_map: "set (map (\<lambda>b. k) bs) = (if bs = [] then {} else {k})"
  by (cases bs) auto

lemma set_group_level:
  "set (concat (map (\<lambda>k. map (\<lambda>b. k) (grid k)) groups)) = {k \<in> set groups. grid k \<noteq> []}"
  by (induction groups) (auto simp: set_constant_map simp del: set_map)

lemma set_group_keys: "set (group_keys keys) = set keys - {NA}"
  by (auto simp: group_keys_def)

lemma resample_groups_level:
  assumes "length keys = length (level_values l)"
    and "list_all (\<lambda>t. time_of t \<noteq> None) (level_values l)"
    and "NA \<notin> set keys"
  shows "map_option set (level_values_named groupby (resample_groups w groupby l keys reds X))
           = Some (set keys)"
proof -
  let ?grid = "\<lambda>k. bucket_grid w (group_times k keys (level_values l))"
  have nonempty: "?grid k \<noteq> []" if "k \<in> set keys" for k
    using group_times_nonempty [OF that assms(1,2)] by (simp add: bucket_grid_empty_iff)
  have "level_values_named groupby (resample_groups w groupby l keys reds X)
          = Some (concat (map (\<lambda>k. map (\<lambda>b. k) (?grid k)) (group_keys keys)))"
    by (simp add: level_values_named_def resample_groups_def Let_def)
  moreover have "set (concat (map (\<lambda>k. map (\<lambda>b. k) (?grid k)) (group_keys keys))) = set keys"
    unfolding set_group_level set_group_keys using nonempty assms(3) by auto
  ultimately show ?thesis by simp
qed

lemma level_values_named_cong: "index df = index df' \<Longrightarrow> level_values_named n df = level_values_named n df'"
  by (simp add: level_values_named_def)

lemma index_fillna: "index (fillna v df) = index df"
  by (simp add: fillna_def)

lemma index_drop_columns: "index (drop_columns n df) = index df"
  by (simp add: drop_columns_def)

lemma resolve_all_single:
  "named_reduction lib n = Some f \<Longrightarrow>
   resolve_all lib (map (\<lambda>c. (c, ByName n)) cols) = Inr (map (\<lambda>c. (c, f)) cols)"
  by (induction cols) (simp_all add: resolve_reducer_def)

lemma resampler_groups_preserved:
  assumes "resampler_valid_input lib self X"
  shows "\<exists>out keys.
           resampler_transform (spec_engine lib) self (DataFrame X) lg = (Inr (DataFrame out), lg)
         \<and> map_of (columns X) (resampler_groupby self) = Some keys
         \<and> map_option set (level_values_named (resampler_groupby self) out) = Some (set keys)"
proof -
  from assms obtain l keys w f where
    ix: "index X = Index l" "level_dtype l = Datetime64"
    and stamps: "list_all (\<lambda>t. time_of t \<noteq> None) (level_values l)"
    and keys: "map_of (columns X) (resampler_groupby self) = Some keys"
      "length keys = length (level_values l)" "NA \<notin> set keys"
    and w: "to_offset lib (resampler_frequency self) = Some w" "0 < w"
    and f: "named_reduction lib (resampler_method self) = Some f"
    by (auto simp: resampler_valid_input_def split: pd_index.splits option.splits)
  define agg where "agg = resample_groups w (resampler_groupby self) l keys
      (map (\<lambda>c. (c, f)) (map fst (columns X))) X"
  have eng: "spec_engine lib (resampler_groupby self) (resampler_frequency self)
               (Single (ByName (resampler_method self))) X = Inr agg"
    using ix keys(1) w resolve_all_single [OF f, of "map fst (columns X)"]
    by (simp add: spec_engine_def resolve_method_def agg_def)
  have lev: "map_option set (level_values_named (resampler_groupby self) agg) = Some (set keys)"
    unfolding agg_def by (rule resample_groups_level [OF keys(2) stamps keys(3)])
  show ?thesis
  proof (cases "resampler_default_value self")
    case None
    then have "resampler_transform (spec_engine lib) self (DataFrame X) lg = (Inr (DataFrame agg), lg)"
      using ix eng by (simp add: resampler_transform_def resampler_resample_def)
    with keys(1) lev show ?thesis by blast
  next
    case (Some v)
    then have "resampler_transform (spec_engine lib) self (DataFrame X) lg
        = (Inr (DataFrame (fillna v agg)), lg)"
      using ix eng by (simp add: resampler_transform_def resampler_resample_def)
    moreover have "level_values_named (resampler_groupby self) (fillna v agg)
        = level_values_named (resampler_groupby self) agg"
      by (rule level_values_named_cong) (rule index_fillna)
    ultimately show ?thesis using keys(1) lev by force
  qed
qed

lemma transformer_groups_preserved:
  assumes "transformer_valid_input lib self X"
  shows "\<exists>out keys.
           transformer_transform (spec_engine lib) self (DataFrame X) lg = (Inr (DataFrame out), lg)
         \<and> level_values_named (transformer_groupby self) X = Some keys
         \<and> map_option set (level_values_named (transformer_groupby self) out) = Some (set keys)"
proof -
  let ?g = "transformer_groupby self"
  from assms obtain keys where keys1: "level_values_named ?g X = Some keys"
    by (auto simp: transformer_valid_input_def split: option.splits)
  with assms have valid:
    "?g \<notin> set (map fst (columns X))" "NA \<notin> set keys"
    "(case filter (\<lambda>l. level_name l \<noteq> Some ?g) (levels (index X)) of
        [l] \<Rightarrow> level_dtype l = Datetime64
               \<and> list_all (\<lambda>t. time_of t \<noteq> None) (level_values l)
               \<and> length keys = length (level_values l)
      | _ \<Rightarrow> False)"
    "(case to_offset lib (transformer_frequency self) of None \<Rightarrow> False | Some w \<Rightarrow> 0 < w)"
    "(case resolve_method lib (transformer_method self) (?g # map fst (columns X)) of
        Inl e \<Rightarrow> False | Inr reds \<Rightarrow> True)"
    and names: "names_identify_levels (index X)"
    by (simp_all add: transformer_valid_input_def)
  note keys = keys1 valid(1,2)
  from valid(3) obtain l where
    rest: "filter (\<lambda>l. level_name l \<noteq> Some ?g) (levels (index X)) = [l]"
    and l: "level_dtype l = Datetime64" "list_all (\<lambda>t. time_of t \<noteq> None) (level_values l)"
      "length keys = length (level_values l)"
    by (auto split: list.splits)
  from valid(4) obtain w where w: "to_offset lib (transformer_frequency self) = Some w" "0 < w"
    by (auto split: option.splits)
  from valid(5) obtain reds where
    reds: "resolve_method lib (transformer_method self) (?g # map fst (columns X)) = Inr reds"
    by (auto split: sum.splits)
  from keys1 obtain kl others where
    first: "filter (\<lambda>l. level_name l = Some ?g) (levels (index X)) = kl # others"
    and kl_values: "level_values kl = keys"
    by (auto simp: level_values_named_def split: list.splits)
  have "kl \<in> set (filter (\<lambda>l. level_name l = Some ?g) (levels (index X)))"
    unfolding first by simp
  with kl_values have kl: "kl \<in> set (levels (index X))" "level_name kl = Some ?g"
    "level_values kl = keys"
    by simp_all
  have lookup: "get_level_values (Some ?g) (index X) = Inr kl"
  proof (cases "index X")
    case (Index k)
    with rest kl show ?thesis by (simp split: if_splits)
  next
    case (MultiIndex ls)
    with names kl get_level_values_distinct [of ls kl] show ?thesis by simp
  qed
  define X' where "X' = \<lparr> index = Index l, columns = (?g, keys) # columns X \<rparr>"
  have reset: "reset_index ?g X = Inr X'"
    using lookup keys(2) rest kl(3) by (simp add: reset_index_def X'_def)
  have "l \<in> set (filter (\<lambda>l. level_name l \<noteq> Some ?g) (levels (index X)))"
    unfolding rest by simp
  then have "\<exists>l \<in> set (levels (index X)). level_dtype l = Datetime64"
    using l(1) by auto
  then have any: "any_level_is_datetime64 (index X) = Inr True"
    using any_level_is_datetime64_identified [OF names] by simp
  define agg where "agg = resample_groups w ?g l keys reds X'"
  have eng: "spec_engine lib ?g (transformer_frequency self) (transformer_method self) X' = Inr agg"
    using l(1) w reds by (simp add: spec_engine_def X'_def agg_def)
  have lev: "map_option set (level_values_named ?g agg) = Some (set keys)"
    unfolding agg_def by (rule resample_groups_level [OF l(3) l(2) keys(3)])
  define masked where "masked = mask_zeros (drop_columns ?g agg)"
  have ix_masked: "index masked = index agg"
    by (simp add: masked_def index_mask_zeros index_drop_columns)
  have agg_ok: "transformer_aggregate (spec_engine lib) self X = Inr (drop_columns ?g agg)"
    using reset eng by (simp add: transformer_aggregate_def)
  show ?thesis
  proof (cases "transformer_default_value self")
    case None
    then have "transformer_transform (spec_engine lib) self (DataFrame X) lg
        = (Inr (DataFrame masked), lg)"
      using any agg_ok by (simp add: transformer_transform_def transformer_resample_def masked_def)
    moreover have "level_values_named ?g masked = level_values_named ?g agg"
      by (rule level_values_named_cong) (rule ix_masked)
    ultimately show ?thesis using keys(1) lev by force
  next
    case (Some v)
    then have "transformer_transform (spec_engine lib) self (DataFrame X) lg
        = (Inr (DataFrame (fillna v masked)), lg)"
      using any agg_ok by (simp add: transformer_transform_def transformer_resample_def masked_def)
    moreover have "level_values_named ?g (fillna v masked) = level_values_named ?g agg"
      by (rule level_values_named_cong) (simp add: index_fillna ix_masked)
    ultimately show ?thesis using keys(1) lev by force
  qed
qed

section \<open>The scenario, evaluated\<close>

lemma reset_index_scenario_keyed: "reset_index ''stay_id'' scenario_keyed = Inr scenario_flat"
  by (simp add: reset_index_def get_level_values_def scenario_keyed_def scenario_flat_def)

lemma spec_engine_scenario_flat:
  "spec_engine hourly_library ''stay_id'' ''1H'' (Single (ByName ''mean'')) scenario_flat
     = Inr scenario_mean"
  by code_simp

lemma any_level_scenario_keyed: "any_level_is_datetime64 (index scenario_keyed) = Inr True"
  by (simp add: any_level_is_datetime64_identified scenario_keyed_def)

lemma single_datetime_scenario_flat: "is_datetime64_any_dtype_index (index scenario_flat)"
  by (simp add: scenario_flat_def)

section \<open>The default fill of each variant\<close>

lemma cell_fillna_cases:
  assumes "j < length (columns df)" and "i < length (snd (columns df ! j))"
  shows "cell (fillna v df) j i = (if cell df j i = NA then Num v else cell df j i)"
  using assms by (cases "cell df j i") (simp_all add: cell_fillna fill_cell_def)

lemma cell_mask_zeros_cases:
  assumes "j < length (columns df)" and "i < length (snd (columns df ! j))"
  shows "cell (mask_zeros df) j i = NA \<longleftrightarrow> cell df j i = NA \<or> eq_zero (cell df j i)"
  using assms by (simp add: cell_mask_zeros mask_zero_cell_def)

lemma fillna_leaves_no_NA: "c \<in> set (columns (fillna v df)) \<Longrightarrow> NA \<notin> set (snd c)"
  using no_NA_fillna [of "fst c" "snd c" v df] by simp

lemma range_mask_zeros:
  assumes "j < length (columns df)" and "i < length (snd (columns df ! j))"
  shows "j < length (columns (mask_zeros df))"
    and "i < length (snd (columns (mask_zeros df) ! j))"
  using assms by (simp_all add: columns_mask_zeros)

lemma resampler_transform_filled:
  assumes "is_datetime64_any_dtype_index (index X)"
    and "resampler_default_value self = Some v"
    and "engine (resampler_groupby self) (resampler_frequency self)
           (Single (ByName (resampler_method self))) X = Inr agg"
  shows "resampler_transform engine self (DataFrame X) lg = (Inr (DataFrame (fillna v agg)), lg)"
  using assms by (simp add: resampler_transform_def resampler_resample_def)

lemma transformer_transform_filled:
  assumes "any_level_is_datetime64 (index X) = Inr True"
    and "transformer_default_value self = Some v"
    and "transformer_aggregate engine self X = Inr dropped"
  shows "transformer_transform engine self (DataFrame X) lg
           = (Inr (DataFrame (fillna v (mask_zeros dropped))), lg)"
  using assms by (simp add: transformer_transform_def transformer_resample_def)

lemma transformer_transform_unfilled:
  assumes "any_level_is_datetime64 (index X) = Inr True"
    and "transformer_default_value self = None"
    and "transformer_aggregate engine self X = Inr dropped"
  shows "transformer_transform engine self (DataFrame X) lg
           = (Inr (DataFrame (mask_zeros dropped)), lg)"
  using assms by (simp add: transformer_transform_def transformer_resample_def)

lemma transformer_aggregate_default_value:
  "transformer_aggregate engine (self \<lparr> transformer_default_value := d \<rparr>) X
     = transformer_aggregate engine self X"
  by (simp add: transformer_aggregate_def split: sum.splits)

lemma transformer_aggregate_scenario_keyed:
  assumes "transformer_groupby self = ''stay_id''" and "transformer_frequency self = ''1H''"
    and "transformer_method self = Single (ByName ''mean'')"
  shows "transformer_aggregate (spec_engine hourly_library) self scenario_keyed
           = Inr (drop_columns ''stay_id'' scenario_mean)"
  using assms
  by (simp add: transformer_aggregate_def reset_index_scenario_keyed spec_engine_scenario_flat)

lemma fillna_scenario_mean:
  "fillna 7 scenario_mean
     = scenario_mean \<lparr> columns := [(''stay_id'', [Num 7, Num 7, Num 7, Num 7, Num 7, Num 7]),
                                    (''hr'', [Num 5, Num 10, Num 20, Num 7, Num 7, Num 0])] \<rparr>"
  "fillna 0 scenario_mean
     = scenario_mean \<lparr> columns := [(''stay_id'', [Num 0, Num 0, Num 0, Num 0, Num 0, Num 0]),
                                    (''hr'', [Num 5, Num 10, Num 20, Num 0, Num 0, Num 0])] \<rparr>"
  by (simp_all add: fillna_def scenario_mean_def fill_cell_def)

lemma masked_scenario_mean:
  "mask_zeros (drop_columns ''stay_id'' scenario_mean)
     = scenario_mean \<lparr> columns := [(''hr'', [Num 5, Num 10, Num 20, NA, NA, NA])] \<rparr>"
  "fillna 7 (mask_zeros (drop_columns ''stay_id'' scenario_mean))
     = scenario_mean \<lparr> columns := [(''hr'', [Num 5, Num 10, Num 20, Num 7, Num 7, Num 7])] \<rparr>"
  by (simp_all add: mask_zeros_def mask_zero_column_def mask_zero_cell_def drop_columns_def
      fillna_def fill_cell_def scenario_mean_def)

lemma transformer_resample_error:
  "transformer_resample engine (self \<lparr> transformer_error := e \<rparr>) X
     = transformer_resample engine self X"
  by (simp add: transformer_resample_def transformer_aggregate_def Let_def
      split: sum.splits option.splits)

lemma any_level_keyed_only: "any_level_is_datetime64 (index keyed_only) = Inr False"
  by (simp add: any_level_is_datetime64_identified keyed_only_def)


section \<open>The claims\<close>

text \<open>
  C1. Variant 2, on an input that passes the two checks and that the library can
  re-index and aggregate: the transform returns a table \<open>out\<close> obtained from the
  aggregate by dropping the grouping-key column, then replacing every cell equal to zero
  by the missing marker, then (if a default value is configured) filling. The grouping
  key is not among the columns of \<open>out\<close>; every cell of a remaining column whose
  aggregated value equals zero is missing before the fill, and equals \<open>v\<close> in the
  output when \<open>default_value = v\<close>.
\<close>

theorem transformer_transform_drops_key_and_masks_zeros:
  assumes "any_level_is_datetime64 (index X) = Inr True"
    and "reset_index (transformer_groupby self) X = Inr X'"
    and "engine (transformer_groupby self) (transformer_frequency self)
           (transformer_method self) X' = Inr agg"
  shows "\<exists>dropped masked out.
           dropped = drop_columns (transformer_groupby self) agg
         \<and> masked = mask_zeros dropped
         \<and> out = (case transformer_default_value self of
                     None \<Rightarrow> masked
                   | Some v \<Rightarrow> fillna v masked)
         \<and> transformer_transform engine self (DataFrame X) lg = (Inr (DataFrame out), lg)
         \<and> transformer_groupby self \<notin> set (map fst (columns out))
         \<and> map fst (columns out) =
             filter (\<lambda>c. c \<noteq> transformer_groupby self) (map fst (columns agg))
         \<and> (\<forall>j i. j < length (columns dropped) \<longrightarrow> i < length (snd (columns dropped ! j)) \<longrightarrow>
                eq_zero (cell dropped j i) \<longrightarrow>
                  cell masked j i = NA
                \<and> (\<forall>v. transformer_default_value self = Some v \<longrightarrow> cell out j i = Num v))"
proof -
  define dropped where "dropped = drop_columns (transformer_groupby self) agg"
  define masked where "masked = mask_zeros dropped"
  define out where "out = (case transformer_default_value self of
                     None \<Rightarrow> masked | Some v \<Rightarrow> fillna v masked)"
  have agg: "transformer_aggregate engine self X = Inr dropped"
    using assms(2,3) by (simp add: transformer_aggregate_def dropped_def)
  have run: "transformer_transform engine self (DataFrame X) lg = (Inr (DataFrame out), lg)"
    using assms(1) agg
    by (simp add: transformer_transform_def transformer_resample_def out_def masked_def
        split: option.splits)
  have names_out: "map fst (columns out) = map fst (columns dropped)"
    by (simp add: out_def masked_def names_mask_zeros names_fillna split: option.splits)
  have names_dropped: "map fst (columns dropped) =
      filter (\<lambda>c. c \<noteq> transformer_groupby self) (map fst (columns agg))"
    by (simp add: dropped_def drop_columns_def filter_map comp_def)
  have absent: "transformer_groupby self \<notin> set (map fst (columns out))"
    unfolding names_out names_dropped by simp
  have cells: "cell masked j i = NA
      \<and> (\<forall>v. transformer_default_value self = Some v \<longrightarrow> cell out j i = Num v)"
    if "j < length (columns dropped)" "i < length (snd (columns dropped ! j))"
       "eq_zero (cell dropped j i)" for j i
  proof -
    have m: "cell masked j i = NA"
      using that by (simp add: masked_def cell_mask_zeros mask_zero_cell_def)
    have "cell (fillna v masked) j i = Num v" for v
    proof -
      have "j < length (columns masked)" "i < length (snd (columns masked ! j))"
        using that(1,2) by (simp_all add: masked_def columns_mask_zeros)
      then show ?thesis using m by (simp add: cell_fillna fill_cell_def)
    qed
    then show ?thesis using m by (auto simp: out_def)
  qed
  show ?thesis
    using run absent names_out names_dropped cells
    unfolding dropped_def[symmetric] masked_def[symmetric] out_def[symmetric]
    by (intro exI[of _ dropped] exI[of _ masked] exI[of _ out]) (simp add: dropped_def masked_def out_def)
qed

theorem transformer_transform_drops_key_and_masks_zeros_witness:
  "any_level_is_datetime64 (index scenario_keyed) = Inr True
   \<and> reset_index ''stay_id'' scenario_keyed = Inr scenario_flat
   \<and> spec_engine hourly_library ''stay_id'' ''1H'' (Single (ByName ''mean'')) scenario_flat
       = Inr scenario_mean
   \<and> transformer_transform (spec_engine hourly_library)
        (transformer_init None None None (Some 7) None) (DataFrame scenario_keyed) []
       = (Inr (DataFrame
            (scenario_mean \<lparr> columns := [(''hr'', [Num 5, Num 10, Num 20, Num 7, Num 7, Num 7])] \<rparr>)),
          [])
   \<and> cell (drop_columns ''stay_id'' scenario_mean) 0 5 = Num 0
   \<and> cell (mask_zeros (drop_columns ''stay_id'' scenario_mean)) 0 5 = NA"
proof -
  let ?self = "transformer_init None None None (Some 7) None"
  have cfg: "transformer_groupby ?self = ''stay_id''" "transformer_frequency ?self = ''1H''"
    "transformer_method ?self = Single (ByName ''mean'')"
    "transformer_default_value ?self = Some 7"
    by (simp_all add: transformer_init_def)
  have h2: "reset_index (transformer_groupby ?self) scenario_keyed = Inr scenario_flat"
    by (simp add: cfg reset_index_scenario_keyed)
  have h3: "spec_engine hourly_library (transformer_groupby ?self) (transformer_frequency ?self)
              (transformer_method ?self) scenario_flat = Inr scenario_mean"
    by (simp add: cfg spec_engine_scenario_flat)
  have run: "transformer_transform (spec_engine hourly_library) ?self (DataFrame scenario_keyed) []
      = (Inr (DataFrame (fillna 7 (mask_zeros (drop_columns ''stay_id'' scenario_mean)))), [])"
    using transformer_transform_drops_key_and_masks_zeros
            [where engine = "spec_engine hourly_library" and self = ?self and lg = "[]",
             OF any_level_scenario_keyed h2 h3]
    by (simp add: cfg)
  have out: "fillna 7 (mask_zeros (drop_columns ''stay_id'' scenario_mean))
      = scenario_mean \<lparr> columns := [(''hr'', [Num 5, Num 10, Num 20, Num 7, Num 7, Num 7])] \<rparr>"
    by code_simp
  have cells: "cell (drop_columns ''stay_id'' scenario_mean) 0 5 = Num 0"
    "cell (mask_zeros (drop_columns ''stay_id'' scenario_mean)) 0 5 = NA"
    by code_simp+
  show ?thesis
    using any_level_scenario_keyed reset_index_scenario_keyed spec_engine_scenario_flat run out cells
    by simp
qed

text \<open>
  C2. The claim as stated fails for variant 1: its constructor stores 0.0 for a
  \<^verbatim>\<open>default_value\<close> left out or given as \<^verbatim>\<open>None\<close>, so transform fills. On the scenario,
  the empty bucket of group A at 02:00 has no mean, and the output holds 0 there.
\<close>

theorem resampler_unset_default_value_fills_zero:
  "spec_engine hourly_library ''stay_id'' ''1H'' (Single (ByName ''mean'')) scenario_flat
     = Inr scenario_mean
   \<and> cell scenario_mean 1 3 = NA
   \<and> resampler_transform (spec_engine hourly_library) (resampler_init None None None None)
        (DataFrame scenario_flat) []
       = (Inr (DataFrame
            (scenario_mean
               \<lparr> columns := [(''stay_id'', [Num 0, Num 0, Num 0, Num 0, Num 0, Num 0]),
                              (''hr'', [Num 5, Num 10, Num 20, Num 0, Num 0, Num 0])] \<rparr>)),
          [])
   \<and> cell (scenario_mean
               \<lparr> columns := [(''stay_id'', [Num 0, Num 0, Num 0, Num 0, Num 0, Num 0]),
                              (''hr'', [Num 5, Num 10, Num 20, Num 0, Num 0, Num 0])] \<rparr>) 1 3
       \<noteq> NA"
proof -
  let ?self = "resampler_init None None None None"
  have cfg: "resampler_groupby ?self = ''stay_id''" "resampler_frequency ?self = ''1H''"
    "resampler_method ?self = ''mean''" "resampler_default_value ?self = Some 0"
    by (simp_all add: resampler_init_def)
  have eng: "spec_engine hourly_library (resampler_groupby ?self) (resampler_frequency ?self)
      (Single (ByName (resampler_method ?self))) scenario_flat = Inr scenario_mean"
    by (simp add: cfg spec_engine_scenario_flat)
  have "resampler_transform (spec_engine hourly_library) ?self (DataFrame scenario_flat) []
      = (Inr (DataFrame (fillna 0 scenario_mean)), [])"
    by (rule resampler_transform_filled
          [where engine = "spec_engine hourly_library", OF single_datetime_scenario_flat cfg(4) eng])
  moreover have "cell scenario_mean 1 3 = NA"
    by (simp add: cell_def scenario_mean_def)
  ultimately show ?thesis
    by (simp add: spec_engine_scenario_flat fillna_scenario_mean cell_def)
qed

text \<open>
  C2, amended. Variant 2 constructed with \<^verbatim>\<open>default_value\<close> unset or null has no default
  value, and then transform, on an input that passes the checks and that the library can
  aggregate, returns the aggregate with the key column dropped and zeros masked: empty
  buckets and zero-coerced cells are missing in the output. Variant 1 returns the
  aggregate as it is when its \<^verbatim>\<open>default_value\<close> field is null at the call; its
  constructor, though, stores 0.0 for an unset or null \<^verbatim>\<open>default_value\<close>, and a
  transformer so constructed fills every missing cell with 0.0.
\<close>

theorem default_value_unset_by_variant:
  "transformer_default_value (transformer_init frequency2 groupby2 method2 None error2) = None
   \<and> (any_level_is_datetime64 (index X2) = Inr True \<longrightarrow>
      transformer_default_value self2 = None \<longrightarrow>
      transformer_aggregate engine2 self2 X2 = Inr dropped \<longrightarrow>
        transformer_transform engine2 self2 (DataFrame X2) lg2
          = (Inr (DataFrame (mask_zeros dropped)), lg2)
      \<and> (\<forall>j i. j < length (columns dropped) \<longrightarrow> i < length (snd (columns dropped ! j)) \<longrightarrow>
            (cell (mask_zeros dropped) j i = NA
               \<longleftrightarrow> cell dropped j i = NA \<or> eq_zero (cell dropped j i))))
   \<and> (is_datetime64_any_dtype_index (index X1) \<longrightarrow>
      resampler_default_value self1 = None \<longrightarrow>
      engine1 (resampler_groupby self1) (resampler_frequency self1)
        (Single (ByName (resampler_method self1))) X1 = Inr agg \<longrightarrow>
        resampler_transform engine1 self1 (DataFrame X1) lg1 = (Inr (DataFrame agg), lg1))
   \<and> resampler_default_value (resampler_init frequency1 method1 groupby1 None) = Some 0
   \<and> (is_datetime64_any_dtype_index (index X1) \<longrightarrow>
      resampler_default_value self1' = Some 0 \<longrightarrow>
      engine1 (resampler_groupby self1') (resampler_frequency self1')
        (Single (ByName (resampler_method self1'))) X1 = Inr agg' \<longrightarrow>
        resampler_transform engine1 self1' (DataFrame X1) lg1
          = (Inr (DataFrame (fillna 0 agg')), lg1)
      \<and> (\<forall>j i. j < length (columns agg') \<longrightarrow> i < length (snd (columns agg' ! j)) \<longrightarrow>
            cell agg' j i = NA \<longrightarrow> cell (fillna 0 agg') j i = Num 0))"
proof (intro conjI impI allI)
  show "transformer_default_value (transformer_init frequency2 groupby2 method2 None error2) = None"
    by (simp add: transformer_init_def)
  show "resampler_default_value (resampler_init frequency1 method1 groupby1 None) = Some 0"
    by (simp add: resampler_init_def)
next
  assume "any_level_is_datetime64 (index X2) = Inr True" "transformer_default_value self2 = None"
    "transformer_aggregate engine2 self2 X2 = Inr dropped"
  then show "transformer_transform engine2 self2 (DataFrame X2) lg2
      = (Inr (DataFrame (mask_zeros dropped)), lg2)"
    by (rule transformer_transform_unfilled)
next
  fix j i
  assume "j < length (columns dropped)" "i < length (snd (columns dropped ! j))"
  then show "cell (mask_zeros dropped) j i = NA
      \<longleftrightarrow> cell dropped j i = NA \<or> eq_zero (cell dropped j i)"
    by (rule cell_mask_zeros_cases)
next
  assume "is_datetime64_any_dtype_index (index X1)" "resampler_default_value self1 = None"
    "engine1 (resampler_groupby self1) (resampler_frequency self1)
        (Single (ByName (resampler_method self1))) X1 = Inr agg"
  then show "resampler_transform engine1 self1 (DataFrame X1) lg1 = (Inr (DataFrame agg), lg1)"
    by (simp add: resampler_transform_def resampler_resample_def)
next
  assume "is_datetime64_any_dtype_index (index X1)" "resampler_default_value self1' = Some 0"
    "engine1 (resampler_groupby self1') (resampler_frequency self1')
        (Single (ByName (resampler_method self1'))) X1 = Inr agg'"
  then show "resampler_transform engine1 self1' (DataFrame X1) lg1
      = (Inr (DataFrame (fillna 0 agg')), lg1)"
    by (simp add: resampler_transform_def resampler_resample_def)
next
  fix j i
  assume "j < length (columns agg')" "i < length (snd (columns agg' ! j))" "cell agg' j i = NA"
  then show "cell (fillna 0 agg') j i = Num 0"
    by (simp add: cell_fillna_cases)
qed

theorem default_value_unset_by_variant_witness:
  "transformer_default_value (transformer_init None None None None None) = None
   \<and> any_level_is_datetime64 (index scenario_keyed) = Inr True
   \<and> transformer_aggregate (spec_engine hourly_library)
        (transformer_init None None None None None) scenario_keyed
       = Inr (drop_columns ''stay_id'' scenario_mean)
   \<and> transformer_transform (spec_engine hourly_library)
        (transformer_init None None None None None) (DataFrame scenario_keyed) []
       = (Inr (DataFrame
            (scenario_mean \<lparr> columns := [(''hr'', [Num 5, Num 10, Num 20, NA, NA, NA])] \<rparr>)),
          [])
   \<and> is_datetime64_any_dtype_index (index scenario_flat)
   \<and> resampler_default_value
        ((resampler_init None None None None) \<lparr> resampler_default_value := None \<rparr>) = None
   \<and> spec_engine hourly_library ''stay_id'' ''1H'' (Single (ByName ''mean'')) scenario_flat
       = Inr scenario_mean
   \<and> resampler_transform (spec_engine hourly_library)
        ((resampler_init None None None None) \<lparr> resampler_default_value := None \<rparr>)
        (DataFrame scenario_flat) []
       = (Inr (DataFrame scenario_mean), [])
   \<and> resampler_default_value (resampler_init None None None None) = Some 0
   \<and> resampler_transform (spec_engine hourly_library) (resampler_init None None None None)
        (DataFrame scenario_flat) []
       = (Inr (DataFrame (fillna 0 scenario_mean)), [])
   \<and> cell scenario_mean 1 3 = NA
   \<and> cell (fillna 0 scenario_mean) 1 3 = Num 0"
proof -
  let ?engine = "spec_engine hourly_library"
  let ?self2 = "transformer_init None None None None None"
  let ?self1' = "resampler_init None None None None"
  let ?self1 = "?self1' \<lparr> resampler_default_value := None \<rparr>"
  have cfg2: "transformer_groupby ?self2 = ''stay_id''" "transformer_frequency ?self2 = ''1H''"
    "transformer_method ?self2 = Single (ByName ''mean'')"
    by (simp_all add: transformer_init_def)
  have d2: "transformer_default_value ?self2 = None"
    by (simp add: transformer_init_def)
  have k3: "transformer_aggregate ?engine ?self2 scenario_keyed
      = Inr (drop_columns ''stay_id'' scenario_mean)"
    by (rule transformer_aggregate_scenario_keyed) (rule cfg2)+
  have d1: "resampler_default_value ?self1 = None" "resampler_default_value ?self1' = Some 0"
    by (simp_all add: resampler_init_def)
  have e1: "?engine (resampler_groupby ?self1) (resampler_frequency ?self1)
      (Single (ByName (resampler_method ?self1))) scenario_flat = Inr scenario_mean"
    by (simp add: resampler_init_def spec_engine_scenario_flat)
  have e1': "?engine (resampler_groupby ?self1') (resampler_frequency ?self1')
      (Single (ByName (resampler_method ?self1'))) scenario_flat = Inr scenario_mean"
    by (simp add: resampler_init_def spec_engine_scenario_flat)
  have na: "cell scenario_mean 1 3 = NA"
    by (simp add: cell_def scenario_mean_def)
  have r: "(1::nat) < length (columns scenario_mean)"
    "(3::nat) < length (snd (columns scenario_mean ! 1))"
    by (simp_all add: scenario_mean_def)
  note inst = default_value_unset_by_variant
      [where ?engine2.0 = ?engine and ?self2.0 = ?self2 and ?X2.0 = scenario_keyed
         and dropped = "drop_columns ''stay_id'' scenario_mean" and ?lg2.0 = "[]"
         and ?engine1.0 = ?engine and ?self1.0 = ?self1 and ?X1.0 = scenario_flat
         and agg = scenario_mean and ?lg1.0 = "[]"
         and self1' = ?self1' and agg' = scenario_mean]
  from inst any_level_scenario_keyed d2 k3
  have t2: "transformer_transform ?engine ?self2 (DataFrame scenario_keyed) []
      = (Inr (DataFrame (mask_zeros (drop_columns ''stay_id'' scenario_mean))), [])"
    by blast
  from inst single_datetime_scenario_flat d1(1) e1
  have t1: "resampler_transform ?engine ?self1 (DataFrame scenario_flat) []
      = (Inr (DataFrame scenario_mean), [])"
    by blast
  from inst single_datetime_scenario_flat d1(2) e1'
  have t1': "resampler_transform ?engine ?self1' (DataFrame scenario_flat) []
      = (Inr (DataFrame (fillna 0 scenario_mean)), [])"
    and "\<forall>j i. j < length (columns scenario_mean) \<longrightarrow>
          i < length (snd (columns scenario_mean ! j)) \<longrightarrow>
          cell scenario_mean j i = NA \<longrightarrow> cell (fillna 0 scenario_mean) j i = Num 0"
    by blast+
  with na r have filled: "cell (fillna 0 scenario_mean) 1 3 = Num 0"
    by blast
  show ?thesis
    using d2 any_level_scenario_keyed k3 t2 single_datetime_scenario_flat d1 t1 t1' na filled
      spec_engine_scenario_flat
    by (simp add: masked_scenario_mean(1))
qed

text \<open>
  C3. With a default value \<open>v\<close> configured (as after construction with a non-null
  \<^verbatim>\<open>default_value\<close>, in both variants), on every input that passes the checks and that
  the library can aggregate: transform returns a table none of whose cells is missing.
  The table the same call returns without a default value is the aggregate (variant 1)
  or the aggregate with the key column dropped and its zeros masked (variant 2); every
  cell missing there (an empty bucket's aggregate, a zero-coerced cell) equals \<open>v\<close> in
  the output, and every other cell is as it is there.
\<close>

theorem default_value_fills_every_missing_cell:
  "resampler_default_value (resampler_init frequency1 method1 groupby1 (Some v)) = Some v
   \<and> transformer_default_value (transformer_init frequency2 groupby2 method2 (Some v) error2)
       = Some v
   \<and> (is_datetime64_any_dtype_index (index X1) \<longrightarrow>
      resampler_default_value self1 = Some v \<longrightarrow>
      engine1 (resampler_groupby self1) (resampler_frequency self1)
        (Single (ByName (resampler_method self1))) X1 = Inr agg \<longrightarrow>
      (\<exists>out.
          resampler_transform engine1 self1 (DataFrame X1) lg1 = (Inr (DataFrame out), lg1)
        \<and> resampler_transform engine1 (self1 \<lparr> resampler_default_value := None \<rparr>)
            (DataFrame X1) lg1 = (Inr (DataFrame agg), lg1)
        \<and> (\<forall>c \<in> set (columns out). NA \<notin> set (snd c))
        \<and> (\<forall>j i. j < length (columns agg) \<longrightarrow> i < length (snd (columns agg ! j)) \<longrightarrow>
              cell out j i = (if cell agg j i = NA then Num v else cell agg j i))))
   \<and> (any_level_is_datetime64 (index X2) = Inr True \<longrightarrow>
      transformer_default_value self2 = Some v \<longrightarrow>
      transformer_aggregate engine2 self2 X2 = Inr dropped \<longrightarrow>
      (\<exists>out.
          transformer_transform engine2 self2 (DataFrame X2) lg2 = (Inr (DataFrame out), lg2)
        \<and> transformer_transform engine2 (self2 \<lparr> transformer_default_value := None \<rparr>)
            (DataFrame X2) lg2 = (Inr (DataFrame (mask_zeros dropped)), lg2)
        \<and> (\<forall>c \<in> set (columns out). NA \<notin> set (snd c))
        \<and> (\<forall>j i. j < length (columns dropped) \<longrightarrow> i < length (snd (columns dropped ! j)) \<longrightarrow>
              cell out j i =
                (if cell dropped j i = NA \<or> eq_zero (cell dropped j i) then Num v
                 else cell dropped j i))))"
proof (intro conjI impI)
  show "resampler_default_value (resampler_init frequency1 method1 groupby1 (Some v)) = Some v"
    by (simp add: resampler_init_def)
  show "transformer_default_value (transformer_init frequency2 groupby2 method2 (Some v) error2)
      = Some v"
    by (simp add: transformer_init_def)
next
  assume a: "is_datetime64_any_dtype_index (index X1)"
    "resampler_default_value self1 = Some v"
    "engine1 (resampler_groupby self1) (resampler_frequency self1)
        (Single (ByName (resampler_method self1))) X1 = Inr agg"
  have filled: "resampler_transform engine1 self1 (DataFrame X1) lg1
      = (Inr (DataFrame (fillna v agg)), lg1)"
    by (rule resampler_transform_filled [where engine = engine1, OF a])
  have unfilled: "resampler_transform engine1 (self1 \<lparr> resampler_default_value := None \<rparr>)
      (DataFrame X1) lg1 = (Inr (DataFrame agg), lg1)"
    using a(1,3) by (simp add: resampler_transform_def resampler_resample_def)
  show "\<exists>out.
          resampler_transform engine1 self1 (DataFrame X1) lg1 = (Inr (DataFrame out), lg1)
        \<and> resampler_transform engine1 (self1 \<lparr> resampler_default_value := None \<rparr>)
            (DataFrame X1) lg1 = (Inr (DataFrame agg), lg1)
        \<and> (\<forall>c \<in> set (columns out). NA \<notin> set (snd c))
        \<and> (\<forall>j i. j < length (columns agg) \<longrightarrow> i < length (snd (columns agg ! j)) \<longrightarrow>
              cell out j i = (if cell agg j i = NA then Num v else cell agg j i))"
    using filled unfilled fillna_leaves_no_NA [of _ v agg] cell_fillna_cases [of _ agg _ v]
    by (intro exI [of _ "fillna v agg"]) simp
next
  assume b: "any_level_is_datetime64 (index X2) = Inr True"
    "transformer_default_value self2 = Some v"
    "transformer_aggregate engine2 self2 X2 = Inr dropped"
  let ?masked = "mask_zeros dropped"
  have filled: "transformer_transform engine2 self2 (DataFrame X2) lg2
      = (Inr (DataFrame (fillna v ?masked)), lg2)"
    by (rule transformer_transform_filled [where engine = engine2, OF b])
  have unfilled: "transformer_transform engine2 (self2 \<lparr> transformer_default_value := None \<rparr>)
      (DataFrame X2) lg2 = (Inr (DataFrame ?masked), lg2)"
    using b(1,3)
    by (simp add: transformer_transform_def transformer_resample_def
        transformer_aggregate_default_value)
  have cells: "cell (fillna v ?masked) j i =
      (if cell dropped j i = NA \<or> eq_zero (cell dropped j i) then Num v else cell dropped j i)"
    if r: "j < length (columns dropped)" "i < length (snd (columns dropped ! j))" for j i
  proof -
    have "cell (fillna v ?masked) j i = (if cell ?masked j i = NA then Num v else cell ?masked j i)"
      by (rule cell_fillna_cases) (rule range_mask_zeros [OF r])+
    also have "\<dots> = (if cell dropped j i = NA \<or> eq_zero (cell dropped j i) then Num v
        else cell dropped j i)"
      using cell_mask_zeros_cases [OF r] cell_mask_zeros [OF r]
      by (simp add: mask_zero_cell_def)
    finally show ?thesis .
  qed
  show "\<exists>out.
          transformer_transform engine2 self2 (DataFrame X2) lg2 = (Inr (DataFrame out), lg2)
        \<and> transformer_transform engine2 (self2 \<lparr> transformer_default_value := None \<rparr>)
            (DataFrame X2) lg2 = (Inr (DataFrame (mask_zeros dropped)), lg2)
        \<and> (\<forall>c \<in> set (columns out). NA \<notin> set (snd c))
        \<and> (\<forall>j i. j < length (columns dropped) \<longrightarrow> i < length (snd (columns dropped ! j)) \<longrightarrow>
              cell out j i =
                (if cell dropped j i = NA \<or> eq_zero (cell dropped j i) then Num v
                 else cell dropped j i))"
    using filled unfilled fillna_leaves_no_NA [of _ v ?masked] cells
    by (intro exI [of _ "fillna v ?masked"]) simp
qed

theorem default_value_fills_every_missing_cell_witness:
  "is_datetime64_any_dtype_index (index scenario_flat)
   \<and> resampler_default_value (resampler_init None None None (Some 7)) = Some 7
   \<and> spec_engine hourly_library ''stay_id'' ''1H'' (Single (ByName ''mean'')) scenario_flat
       = Inr scenario_mean
   \<and> resampler_transform (spec_engine hourly_library) (resampler_init None None None (Some 7))
        (DataFrame scenario_flat) []
       = (Inr (DataFrame
            (scenario_mean
               \<lparr> columns := [(''stay_id'', [Num 7, Num 7, Num 7, Num 7, Num 7, Num 7]),
                              (''hr'', [Num 5, Num 10, Num 20, Num 7, Num 7, Num 0])] \<rparr>)),
          [])
   \<and> any_level_is_datetime64 (index scenario_keyed) = Inr True
   \<and> transformer_default_value (transformer_init None None None (Some 7) None) = Some 7
   \<and> transformer_aggregate (spec_engine hourly_library)
        (transformer_init None None None (Some 7) None) scenario_keyed
       = Inr (drop_columns ''stay_id'' scenario_mean)
   \<and> transformer_transform (spec_engine hourly_library)
        (transformer_init None None None (Some 7) None) (DataFrame scenario_keyed) []
       = (Inr (DataFrame
            (scenario_mean
               \<lparr> columns := [(''hr'', [Num 5, Num 10, Num 20, Num 7, Num 7, Num 7])] \<rparr>)),
          [])"
proof -
  let ?engine = "spec_engine hourly_library"
  let ?self1 = "resampler_init None None None (Some 7)"
  let ?self2 = "transformer_init None None None (Some 7) None"
  have cfg1: "resampler_groupby ?self1 = ''stay_id''" "resampler_frequency ?self1 = ''1H''"
    "resampler_method ?self1 = ''mean''" "resampler_default_value ?self1 = Some 7"
    by (simp_all add: resampler_init_def)
  have cfg2: "transformer_groupby ?self2 = ''stay_id''" "transformer_frequency ?self2 = ''1H''"
    "transformer_method ?self2 = Single (ByName ''mean'')"
    "transformer_default_value ?self2 = Some 7"
    by (simp_all add: transformer_init_def)
  have h3: "?engine (resampler_groupby ?self1) (resampler_frequency ?self1)
      (Single (ByName (resampler_method ?self1))) scenario_flat = Inr scenario_mean"
    by (simp add: cfg1 spec_engine_scenario_flat)
  have k3: "transformer_aggregate ?engine ?self2 scenario_keyed
      = Inr (drop_columns ''stay_id'' scenario_mean)"
    by (rule transformer_aggregate_scenario_keyed) (rule cfg2)+
  note inst = default_value_fills_every_missing_cell
      [where v = 7 and ?engine1.0 = ?engine and ?self1.0 = ?self1 and ?X1.0 = scenario_flat
         and agg = scenario_mean and ?lg1.0 = "[]"
         and ?engine2.0 = ?engine and ?self2.0 = ?self2 and ?X2.0 = scenario_keyed
         and dropped = "drop_columns ''stay_id'' scenario_mean" and ?lg2.0 = "[]"]
  from inst single_datetime_scenario_flat cfg1(4) h3
  obtain out1 where out1:
    "resampler_transform ?engine ?self1 (DataFrame scenario_flat) [] = (Inr (DataFrame out1), [])"
    by blast
  from inst any_level_scenario_keyed cfg2(4) k3
  obtain out2 where out2:
    "transformer_transform ?engine ?self2 (DataFrame scenario_keyed) [] = (Inr (DataFrame out2), [])"
    by blast
  have "out1 = fillna 7 scenario_mean"
    using out1 resampler_transform_filled
            [where engine = ?engine, OF single_datetime_scenario_flat cfg1(4) h3, of "[]"]
    by simp
  moreover have "out2 = fillna 7 (mask_zeros (drop_columns ''stay_id'' scenario_mean))"
    using out2 transformer_transform_filled
            [where engine = ?engine, OF any_level_scenario_keyed cfg2(4) k3, of "[]"]
    by simp
  ultimately show ?thesis
    using out1 out2 single_datetime_scenario_flat any_level_scenario_keyed cfg1(4) cfg2(4) k3
      spec_engine_scenario_flat
    by (simp add: fillna_scenario_mean masked_scenario_mean(2))
qed

text \<open>
  C4. Variant 2 with the error policy \<^verbatim>\<open>"raise"\<close>, which is the policy of a transformer
  constructed without an \<^verbatim>\<open>error\<close> argument: on an argument that is not a dataframe,
  transform logs one error and raises the value error \<^verbatim>\<open>X is not a pandas DataFrame\<close>.
  The outcome is the same for every aggregation engine: none is called.
\<close>

theorem transformer_transform_raises_on_non_dataframe:
  assumes "\<not> isinstance_DataFrame X"
    and "transformer_error self = ''raise''"
  shows "transformer_transform engine self X lg =
           (Inl (ValueError ''X is not a pandas DataFrame''),
            lg @ [''ResamplerTransformer: X is not a pandas DataFrame''])
         \<and> transformer_error (transformer_init frequency groupby method default_value None) = ''raise''"
  using assms
  by (cases X) (simp_all add: transformer_transform_def logger_error_def transformer_init_def)

theorem transformer_transform_raises_on_non_dataframe_witness:
  "\<not> isinstance_DataFrame (PyList [PyInt 1, PyInt 2])
   \<and> transformer_error (transformer_init None None None None None) = ''raise''
   \<and> transformer_transform (\<lambda>groupby frequency method X. Inr X)
        (transformer_init None None None None None) (PyList [PyInt 1, PyInt 2]) []
      = (Inl (ValueError ''X is not a pandas DataFrame''),
         [''ResamplerTransformer: X is not a pandas DataFrame''])"
  using transformer_transform_raises_on_non_dataframe
          [of "PyList [PyInt 1, PyInt 2]" "transformer_init None None None None None"
              "\<lambda>groupby frequency method X. Inr X" "[]" None None None None]
  by (simp add: transformer_init_def)




text \<open>
  C6. Variant 1 never raises on a validation failure: on an argument that is not a
  dataframe, and on a dataframe whose index is not datetime-typed, transform logs one
  error and returns its argument unchanged, for every aggregation engine.
\<close>

theorem resampler_transform_returns_input_on_failure:
  "(\<not> isinstance_DataFrame X \<longrightarrow>
      resampler_transform engine self X lg =
        (Inr X, lg @ [''ResamplerTransformer: X is not a pandas DataFrame'']))
   \<and> (\<not> is_datetime64_any_dtype_index (index df) \<longrightarrow>
      resampler_transform engine self (DataFrame df) lg =
        (Inr (DataFrame df), lg @ [''ResamplerTransformer: X does not have a datetime index'']))"
  by (cases X) (simp_all add: resampler_transform_def logger_error_def)

theorem resampler_transform_returns_input_on_failure_witness:
  "\<not> isinstance_DataFrame (PyStr ''table'')
   \<and> resampler_transform (\<lambda>groupby frequency method X. Inl (KeyError groupby))
        (resampler_init None None None None) (PyStr ''table'') []
      = (Inr (PyStr ''table''), [''ResamplerTransformer: X is not a pandas DataFrame''])
   \<and> \<not> is_datetime64_any_dtype_index
          (index \<lparr> index = Index \<lparr> level_name = None, level_dtype = Int64,
                               level_values = [Num 0, Num 1] \<rparr>,
                    columns = [(''stay_id'', [Num 1, Num 1]), (''hr'', [Num 80, Num 90])] \<rparr>)
   \<and> resampler_transform (\<lambda>groupby frequency method X. Inl (KeyError groupby))
        (resampler_init None None None None)
        (DataFrame \<lparr> index = Index \<lparr> level_name = None, level_dtype = Int64,
                                  level_values = [Num 0, Num 1] \<rparr>,
                       columns = [(''stay_id'', [Num 1, Num 1]), (''hr'', [Num 80, Num 90])] \<rparr>) []
      = (Inr (DataFrame \<lparr> index = Index \<lparr> level_name = None, level_dtype = Int64,
                                  level_values = [Num 0, Num 1] \<rparr>,
                       columns = [(''stay_id'', [Num 1, Num 1]), (''hr'', [Num 80, Num 90])] \<rparr>),
         [''ResamplerTransformer: X does not have a datetime index''])"
  using resampler_transform_returns_input_on_failure
          [of "PyStr ''table''" "\<lambda>groupby frequency method X. Inl (KeyError groupby)"
              "resampler_init None None None None" "[]"
              "\<lparr> index = Index \<lparr> level_name = None, level_dtype = Int64,
                               level_values = [Num 0, Num 1] \<rparr>,
                    columns = [(''stay_id'', [Num 1, Num 1]), (''hr'', [Num 80, Num 90])] \<rparr>"]
  by simp




text \<open>
  C8. Group preservation, with the group-by / resample / aggregate chain as the spec
  describes it: for every valid input of either variant, transform returns a table, and
  the set of grouping-key values in the index of that table is the set of grouping-key
  values of the input (the key column for variant 1, the key level of the index for
  variant 2).
\<close>

theorem transform_preserves_groups:
  "(resampler_valid_input lib self1 X1 \<longrightarrow>
      (\<exists>out keys.
          resampler_transform (spec_engine lib) self1 (DataFrame X1) lg1
            = (Inr (DataFrame out), lg1)
        \<and> map_of (columns X1) (resampler_groupby self1) = Some keys
        \<and> map_option set (level_values_named (resampler_groupby self1) out) = Some (set keys)))
   \<and> (transformer_valid_input lib self2 X2 \<longrightarrow>
      (\<exists>out keys.
          transformer_transform (spec_engine lib) self2 (DataFrame X2) lg2
            = (Inr (DataFrame out), lg2)
        \<and> level_values_named (transformer_groupby self2) X2 = Some keys
        \<and> map_option set (level_values_named (transformer_groupby self2) out) = Some (set keys)))"
  using resampler_groups_preserved [of lib self1 X1 lg1]
    transformer_groups_preserved [of lib self2 X2 lg2]
  by blast

theorem transform_preserves_groups_witness:
  "resampler_valid_input hourly_library (resampler_init None None None None) scenario_flat
   \<and> map_of (columns scenario_flat) ''stay_id'' = Some [Str ''A'', Str ''A'', Str ''B'', Str ''A'']
   \<and> (\<exists>out. resampler_transform (spec_engine hourly_library) (resampler_init None None None None)
               (DataFrame scenario_flat) [] = (Inr (DataFrame out), [])
            \<and> map_option set (level_values_named ''stay_id'' out) = Some {Str ''A'', Str ''B''})
   \<and> transformer_valid_input hourly_library (transformer_init None None None None None)
        scenario_keyed
   \<and> level_values_named ''stay_id'' scenario_keyed = Some [Str ''A'', Str ''A'', Str ''B'', Str ''A'']
   \<and> (\<exists>out. transformer_transform (spec_engine hourly_library)
               (transformer_init None None None None None) (DataFrame scenario_keyed) []
               = (Inr (DataFrame out), [])
            \<and> map_option set (level_values_named ''stay_id'' out) = Some {Str ''A'', Str ''B''})"
proof -
  let ?self1 = "resampler_init None None None None"
  let ?self2 = "transformer_init None None None None None"
  have g: "resampler_groupby ?self1 = ''stay_id''" "transformer_groupby ?self2 = ''stay_id''"
    by (simp_all add: resampler_init_def transformer_init_def)
  have v1: "resampler_valid_input hourly_library ?self1 scenario_flat"
    by code_simp
  have v2: "transformer_valid_input hourly_library ?self2 scenario_keyed"
    by code_simp
  have k1: "map_of (columns scenario_flat) ''stay_id''
      = Some [Str ''A'', Str ''A'', Str ''B'', Str ''A'']"
    by (simp add: scenario_flat_def)
  have k2: "level_values_named ''stay_id'' scenario_keyed
      = Some [Str ''A'', Str ''A'', Str ''B'', Str ''A'']"
    by (simp add: level_values_named_def scenario_keyed_def)
  have s: "{Str ''A'', Str ''B'', Str ''A''} = {Str ''A'', Str ''B''}"
    by auto
  show ?thesis
    using transform_preserves_groups
            [where lib = hourly_library and ?self1.0 = ?self1 and ?X1.0 = scenario_flat
               and ?lg1.0 = "[]" and ?self2.0 = ?self2 and ?X2.0 = scenario_keyed
               and ?lg2.0 = "[]"]
      v1 v2 k1 k2
    by (simp add: g s)
qed

text \<open>
  C9. In both variants \<^verbatim>\<open>fit\<close> returns the transformer it was called on, with every
  field as it was, and leaves the logger as it was, whatever \<open>X\<close> and \<open>y\<close> are.
\<close>

theorem fit_returns_self_unchanged:
  "resampler_fit self1 X1 y1 lg1 = (self1, lg1) \<and> transformer_fit self2 X2 y2 lg2 = (self2, lg2)"
  by (simp add: resampler_fit_def transformer_fit_def)

text \<open>
  C10. Variant 2 with any error policy other than the exact string \<^verbatim>\<open>"raise"\<close>: on
  every argument transform does what it does under the policy \<^verbatim>\<open>"ignore"\<close>, and on
  either validation failure (the argument is not a dataframe, or the check of the index
  finds no datetime level) it logs the error and returns its argument unchanged. The
  check finds no datetime level exactly on an index that has none and whose names
  identify its levels.
\<close>

theorem transformer_transform_ignores_unless_raise:
  assumes "transformer_error self \<noteq> ''raise''"
  shows "transformer_transform engine self X lg
           = transformer_transform engine (self \<lparr> transformer_error := ''ignore'' \<rparr>) X lg
         \<and> (\<not> isinstance_DataFrame X \<longrightarrow>
            transformer_transform engine self X lg =
              (Inr X, lg @ [''ResamplerTransformer: X is not a pandas DataFrame'']))
         \<and> (any_level_is_datetime64 (index df) = Inr False \<longrightarrow>
            transformer_transform engine self (DataFrame df) lg =
              (Inr (DataFrame df),
               lg @ [''ResamplerTransformer: X does not have a datetime index'']))
         \<and> (any_level_is_datetime64 (index df) = Inr False \<longleftrightarrow>
              names_identify_levels (index df)
              \<and> \<not> (\<exists>l \<in> set (levels (index df)). level_dtype l = Datetime64))"
proof (intro conjI impI)
  show "transformer_transform engine self X lg
      = transformer_transform engine (self \<lparr> transformer_error := ''ignore'' \<rparr>) X lg"
    using assms
    by (cases X)
      (simp_all add: transformer_transform_def transformer_resample_error Let_def
        split: sum.splits)
next
  assume "\<not> isinstance_DataFrame X"
  with assms show "transformer_transform engine self X lg =
      (Inr X, lg @ [''ResamplerTransformer: X is not a pandas DataFrame''])"
    by (cases X) (simp_all add: transformer_transform_def logger_error_def)
next
  assume "any_level_is_datetime64 (index df) = Inr False"
  with assms show "transformer_transform engine self (DataFrame df) lg =
      (Inr (DataFrame df), lg @ [''ResamplerTransformer: X does not have a datetime index''])"
    by (simp add: transformer_transform_def logger_error_def)
next
  show "any_level_is_datetime64 (index df) = Inr False \<longleftrightarrow>
      names_identify_levels (index df)
      \<and> \<not> (\<exists>l \<in> set (levels (index df)). level_dtype l = Datetime64)"
    by (rule any_level_is_datetime64_False_iff)
qed

theorem transformer_transform_ignores_unless_raise_witness:
  "transformer_error (transformer_init None None None None (Some ''rasie'')) \<noteq> ''raise''
   \<and> \<not> isinstance_DataFrame PyNone
   \<and> transformer_transform (\<lambda>groupby frequency method X. Inr X)
        (transformer_init None None None None (Some ''rasie'')) PyNone []
      = (Inr PyNone, [''ResamplerTransformer: X is not a pandas DataFrame''])
   \<and> any_level_is_datetime64 (index keyed_only) = Inr False
   \<and> transformer_transform (\<lambda>groupby frequency method X. Inr X)
        (transformer_init None None None None (Some ''rasie'')) (DataFrame keyed_only) []
      = (Inr (DataFrame keyed_only),
         [''ResamplerTransformer: X does not have a datetime index''])
   \<and> transformer_transform (\<lambda>groupby frequency method X. Inr X)
        (transformer_init None None None None (Some ''rasie'')) (DataFrame keyed_only) []
      = transformer_transform (\<lambda>groupby frequency method X. Inr X)
          (transformer_init None None None None (Some ''ignore'')) (DataFrame keyed_only) []"
proof -
  let ?self = "transformer_init None None None None (Some ''rasie'')"
  have h: "transformer_error ?self \<noteq> ''raise''"
    by (simp add: transformer_init_def)
  have same: "?self \<lparr> transformer_error := ''ignore'' \<rparr>
      = transformer_init None None None None (Some ''ignore'')"
    by (simp add: transformer_init_def)
  note at_none = transformer_transform_ignores_unless_raise
         [where engine = "\<lambda>groupby frequency method X. Inr X" and lg = "[]"
            and X = PyNone and df = keyed_only, OF h]
  note at_table = transformer_transform_ignores_unless_raise
         [where engine = "\<lambda>groupby frequency method X. Inr X" and lg = "[]"
            and X = "DataFrame keyed_only" and df = keyed_only, OF h]
  have n: "\<not> isinstance_DataFrame PyNone"
    by simp
  have a: "transformer_transform (\<lambda>groupby frequency method X. Inr X)
        ?self PyNone []
      = (Inr PyNone, [''ResamplerTransformer: X is not a pandas DataFrame''])"
    using at_none [THEN conjunct2, THEN conjunct1, rule_format, OF n] by simp
  have b: "transformer_transform (\<lambda>groupby frequency method X. Inr X)
        ?self (DataFrame keyed_only) []
      = (Inr (DataFrame keyed_only),
         [''ResamplerTransformer: X does not have a datetime index''])"
    using at_table [THEN conjunct2, THEN conjunct2, THEN conjunct1, rule_format,
        OF any_level_keyed_only]
    by simp
  have c: "transformer_transform (\<lambda>groupby frequency method X. Inr X)
        ?self (DataFrame keyed_only) []
      = transformer_transform (\<lambda>groupby frequency method X. Inr X)
          (transformer_init None None None None (Some ''ignore'')) (DataFrame keyed_only) []"
    using at_table [THEN conjunct1] unfolding same .
  show ?thesis
    by (intro conjI) (fact h n a any_level_keyed_only b c)+
qed

end
